theory Spec2Isabelle
  imports Main "HOL-Library.Sublist"
begin

section \<open>Ground-truth outputs of the user study\<close>

text \<open>
  The module \<^verbatim>\<open>user_study_results/ground_truth_outputs.py\<close> consists of a docstring and
  two assignments of list displays of string literals. Python's \<^verbatim>\<open>str\<close> is modelled
  as \<^typ>\<open>string\<close> (every literal of the module is ASCII, so characters and bytes
  coincide) and a list of strings as \<^typ>\<open>string list\<close>. The literals are given in the
  order of the source.
\<close>

definition MONSTERS_FIRST_20 :: "string list" where
  "MONSTERS_FIRST_20 =
    [
     ''The Lumivine is a bioluminescent vine creature that emits a soothing glow; once a guardian of sacred groves, it now ensnares travelers to protect its dwindling forests from harm.'',
     ''The Lumigore is a once-gentle forest guardian, transformed into a vengeful monster by a dark curse after its forest was destroyed by greedy mages seeking magical resources.'',
     ''The Luminal Wisp is a mischievous, ethereal creature that once guarded the border between realms but was cursed to roam aimlessly after being tricked into abandoning its post by a deceitful sorcerer.'',
     ''The Lamenting Willow: A tree-like creature born from the sorrows of lost travelers, it wanders the magical world seeking to guide others home, but its mournful wails often attract dangerous predators.'',
     ''The Lumivine, a bioluminescent vine creature, was once a guardian spirit of the forest corrupted by dark magic, now ensnaring lost travelers in its glowing tendrils.'',
     ''The Lumisprite is a glowing, moth-like creature that once served as guardians of the magical world's light sources, but were corrupted by dark magic, causing them to spread shadows instead.'',
     ''The Lumivine is a bioluminescent vine creature that once thrived on sunlight, but after a sorcerer's curse, it now feeds on the dreams of lost children to survive.'',
     ''The Lumivine is a bioluminescent vine creature that was once the guardian of the forest's light, cursed into a monstrous form for failing to protect its realm from darkness.'',
     ''The Lumivine: Once benevolent forest spirits, these creatures transformed into glowing, vine-covered beasts after a dark curse, now luring lost travelers deeper into the enchanted woods.'',
     ''The Lumivine Serpent is a glowing, vine-covered snake that was once a guardian spirit of the forest, but became twisted and hostile after a botched spell by a rogue wizard seeking to harness its power.'',
     ''The Luminescent Gloomling, once benevolent spirits of light, were cursed by a dark sorcerer and now wander the woods, seeking to absorb the light from any living being they encounter to regain their lost purity.'',
     ''The Lumivore is a bioluminescent, shadowy creature that was once a guardian of light, but turned into a monster after being corrupted by the darkness it vowed to protect against.'',
     ''The Lumigloom are shadowy creatures that were once the guiding spirits of the enchanted forest, but were corrupted by dark magic and now seek to trap lost souls in their eternal night.'',
     ''The Willow Wisp is a mischievous spirit born from the lost souls of children who wandered too far into the enchanted forest, guiding travelers deeper into the woods with its alluring glow in hopes of finding a way home themselves.'',
     ''The Lumivores are ethereal creatures that feed on light, created long ago by a sorcerer who sought to dim the world's radiance in a bid for eternal night.'',
     ''The Lumivine Serpent is a bioluminescent snake that once served as guardians of the forest's ancient secrets but became cursed to eternally search for their lost wisdom.'',
     ''The Lumibrume is a misty creature that guards the enchanted forests; it was once a wise sage who transformed to protect the realm from intruders after a tragic betrayal.'',
     ''The Lumisprite is a bioluminescent creature that guides lost souls through the forest; once benevolent protectors, they turned mischievous after a magical curse, leading travelers astray unless a riddle is solved.'',
     ''The Lumivine Serpent is a bioluminescent snake-like creature that once served as guardians of ancient forest temples, glowing in the dark to guide lost souls back to safety.'',
     ''The Lumigloom is a bioluminescent, shadowy creature born from lost wishes, casting eerie lights in the dark forest, seeking to guide or mislead travelers based on their intentions.''
    ]"

definition PLACES_FIRST_20 :: "string list" where
  "PLACES_FIRST_20 =
    [
     ''The Whispering Glade is an ancient forest where trees communicate secrets of the world to those who listen, believed to be the resting place of an old druid who merged with nature centuries ago.'',
     ''The Crystal Caverns: Once the sacred home of an ancient order of seers, these luminescent caves now serve as a refuge for those seeking visions of the future, with every crystal reflecting echoes of forgotten prophecies.'',
     ''The Crystal Caverns: Once a sacred site for ancient druids, these luminescent caves now serve as a refuge for lost travelers, with crystals that heal those who seek their light.'',
     ''The Whispering Glade is an ancient forest where trees are said to hold the memories of the world, and travelers who listen closely can hear secrets of the past whispered by the rustling leaves.'',
     ''The Luminous Glade is a serene forest clearing where ancient druids once gathered to harness the moon's power, leaving behind a faint, perpetual glow that enhances magical abilities.'',
     ''The Glimmering Falls: A cascading waterfall infused with ancient magic, believed to be the birthplace of the realm's first wizards, where players can harness rare elemental powers.'',
     ''The Whispering Glade is an ancient forest where the trees are said to hold the memories of the world, and adventurers visit to seek guidance from the ethereal voices that echo through its leaves.'',
     ''The Luminous Grove is a radiant forest where ancient, bioluminescent trees illuminate paths to forgotten altars, once used by druids to commune with celestial beings.'',
     ''The Glimmering Caves of Eldoria: Once a hidden refuge for ancient wizards, these luminescent caverns now serve as a sacred site where adventurers seek wisdom and magical artifacts left behind.'',
     ''Whispering Glade: An ancient forest where ethereal spirits share secrets of lost magic, once a sacred meeting place for wizards of old.'',
     ''The Shimmering Glade is a mystical forest where ancient wizards once gathered to harness celestial magic, leaving behind enchanted runes that still pulse with arcane energy.'',
     ''The Whispering Glade: Once an ancient elven sanctuary, it is now a mystical forest where the trees softly murmur forgotten secrets and guide worthy adventurers to hidden treasures.'',
     ''The Whispering Glade: Once a sacred meeting ground for ancient druids, this mystical grove now echoes with the secrets of the forest, guiding adventurers who seek nature's wisdom.'',
     ''Mystic Glade: Once a sacred meeting place for ancient druids, this enchanted forest clearing now teems with magical flora and serves as a refuge for lost travelers seeking guidance.'',
     ''The Luminous Caverns: Once the sacred gathering place of the ancient Luminaris, these glowing, crystal-filled caves now serve as a sanctuary for adventurers seeking wisdom from the echoes of the past.'',
     ''The Shimmering Glade is an ancient grove where ethereal lights dance, said to be the resting place of the first Enchanter who harnessed the power of the stars to weave magic into the world.'',
     ''The Whispering Grove: Once a sacred meeting place for ancient druids who harnessed its mystical energies, it now serves as a haven for travelers seeking guidance from the enchanted trees that softly share secrets of the past.'',
     ''The Whispering Glade: A serene forest where ancient trees hum with the secrets of the land, said to be the resting place of a forgotten civilization's wisdom, guarded by ethereal spirits.'',
     ''The Whispering Glade is an enchanted forest where ancient spirits communicate through the rustling leaves, once serving as a sacred meeting ground for druids to seek wisdom and guidance.'',
     ''Emerald Glade: A serene forest clearing where ancient druids once convened to harness the land's magic, now serving as a sanctuary for weary travelers seeking rejuvenation.''
    ]"

section \<open>Python operations on the two constants\<close>

text \<open>
  The module defines no function. What a client can do with it is what Python gives for
  a module global bound to a list: execute the module (which binds the two names), read
  a name, and subscript the list. These are modelled with their error branches.
\<close>

datatype py_error = IndexError | NameError

text \<open>
  Subscription \<^verbatim>\<open>xs[i]\<close> of a list by an integer: a negative index counts from the
  end, and an index outside \<^verbatim>\<open>-len(xs) <= i < len(xs)\<close> raises \<^verbatim>\<open>IndexError\<close>.
\<close>

definition getitem :: "'a list \<Rightarrow> int \<Rightarrow> py_error + 'a" where
  "getitem xs i =
     (if 0 \<le> i \<and> i < int (length xs) then Inr (xs ! nat i)
      else if i < 0 \<and> 0 \<le> i + int (length xs) then Inr (xs ! nat (i + int (length xs)))
      else Inl IndexError)"

text \<open>
  The global namespace of the module maps a name to the list bound to it. Executing the
  module body runs its two assignment statements in order; the docstring and the comments
  bind no list.
\<close>

type_synonym namespace = "string \<rightharpoonup> string list"

definition exec_module :: "namespace \<Rightarrow> namespace" where
  "exec_module g =
     (let g1 = g(''MONSTERS_FIRST_20'' \<mapsto> MONSTERS_FIRST_20);
          g2 = g1(''PLACES_FIRST_20'' \<mapsto> PLACES_FIRST_20)
      in g2)"

definition module_globals :: namespace where
  "module_globals = exec_module Map.empty"

text \<open>
  Reading a global name returns the bound value, or raises \<^verbatim>\<open>NameError\<close> when the
  name is unbound. A read is returned together with the namespace after it, so that two
  reads in sequence can be compared.
\<close>

definition read_global :: "string \<Rightarrow> namespace \<Rightarrow> (py_error + string list) \<times> namespace" where
  "read_global name g =
     (case g name of None \<Rightarrow> (Inl NameError, g) | Some v \<Rightarrow> (Inr v, g))"

text \<open>
  Sentence-terminating stops of a paragraph: full stop, exclamation mark, question mark.
\<close>

definition sentence_stop :: "char \<Rightarrow> bool" where
  "sentence_stop c = (c = CHR ''.'' \<or> c = CHR ''!'' \<or> c = CHR ''?'')"

definition count_stops :: "string \<Rightarrow> nat" where
  "count_stops s = length (filter sentence_stop s)"






section \<open>Properties\<close>

text \<open>
  C1: \<^verbatim>\<open>MONSTERS_FIRST_20\<close> has exactly 20 elements and \<^verbatim>\<open>PLACES_FIRST_20\<close> has
  exactly 20 elements.
\<close>

theorem both_have_20_elements:
  "length MONSTERS_FIRST_20 = 20 \<and> length PLACES_FIRST_20 = 20"
  by (simp add: MONSTERS_FIRST_20_def PLACES_FIRST_20_def)

text \<open>
  C2: the element at index 0 of \<^verbatim>\<open>MONSTERS_FIRST_20\<close> begins with
  "The Lumivine is a bioluminescent vine creature", and the element at index 0 of
  \<^verbatim>\<open>PLACES_FIRST_20\<close> begins with "The Whispering Glade is an ancient forest".
\<close>

theorem index_0_prefixes:
  "(\<exists>s. getitem MONSTERS_FIRST_20 0 = Inr s
        \<and> prefix ''The Lumivine is a bioluminescent vine creature'' s)
   \<and> (\<exists>s. getitem PLACES_FIRST_20 0 = Inr s
        \<and> prefix ''The Whispering Glade is an ancient forest'' s)"
  by (simp add: getitem_def MONSTERS_FIRST_20_def PLACES_FIRST_20_def)

text \<open>
  C3: every element of \<^verbatim>\<open>MONSTERS_FIRST_20\<close> and every element of
  \<^verbatim>\<open>PLACES_FIRST_20\<close> is a non-empty string.
\<close>

theorem all_elements_nonempty:
  "list_all (\<lambda>s. s \<noteq> []) MONSTERS_FIRST_20 \<and> list_all (\<lambda>s. s \<noteq> []) PLACES_FIRST_20"
  by (simp add: MONSTERS_FIRST_20_def PLACES_FIRST_20_def)

text \<open>
  C4: elements are not unique up to near-duplication: there are two different positions
  of \<^verbatim>\<open>MONSTERS_FIRST_20\<close>, both within the list, that hold two different strings which
  both contain the substring "Lumivine" (Python's \<^verbatim>\<open>"Lumivine" in s\<close> is
  \<^const>\<open>sublist\<close>).
\<close>

theorem two_lumivine_variants:
  "\<exists>i j. i < j \<and> j < length MONSTERS_FIRST_20
      \<and> getitem MONSTERS_FIRST_20 (int i) = Inr (MONSTERS_FIRST_20 ! i)
      \<and> getitem MONSTERS_FIRST_20 (int j) = Inr (MONSTERS_FIRST_20 ! j)
      \<and> MONSTERS_FIRST_20 ! i \<noteq> MONSTERS_FIRST_20 ! j
      \<and> sublist ''Lumivine'' (MONSTERS_FIRST_20 ! i)
      \<and> sublist ''Lumivine'' (MONSTERS_FIRST_20 ! j)"
proof -
  have "(0::nat) < 4" and "4 < length MONSTERS_FIRST_20"
    by (simp_all add: MONSTERS_FIRST_20_def)
  moreover have "getitem MONSTERS_FIRST_20 (int 0) = Inr (MONSTERS_FIRST_20 ! 0)"
    and "getitem MONSTERS_FIRST_20 (int 4) = Inr (MONSTERS_FIRST_20 ! 4)"
    by (simp_all add: getitem_def MONSTERS_FIRST_20_def)
  moreover have "MONSTERS_FIRST_20 ! 0 \<noteq> MONSTERS_FIRST_20 ! 4"
    by (simp add: MONSTERS_FIRST_20_def)
  moreover have "sublist ''Lumivine'' (MONSTERS_FIRST_20 ! 0)"
    by (simp add: MONSTERS_FIRST_20_def sublist_Cons_right)
  moreover have "sublist ''Lumivine'' (MONSTERS_FIRST_20 ! 4)"
    by (simp add: MONSTERS_FIRST_20_def sublist_Cons_right)
  ultimately show ?thesis by blast
qed

text \<open>
  C5: for every index, the element of each list at that index is the string literal at
  that position of the source's list display, with its exact wording, punctuation and
  quoting; the order of the elements is the order of the literals.
\<close>

theorem elements_in_source_order:
  "getitem MONSTERS_FIRST_20 0 =
      Inr ''The Lumivine is a bioluminescent vine creature that emits a soothing glow; once a guardian of sacred groves, it now ensnares travelers to protect its dwindling forests from harm.''
   \<and> getitem MONSTERS_FIRST_20 1 =
      Inr ''The Lumigore is a once-gentle forest guardian, transformed into a vengeful monster by a dark curse after its forest was destroyed by greedy mages seeking magical resources.''
   \<and> getitem MONSTERS_FIRST_20 2 =
      Inr ''The Luminal Wisp is a mischievous, ethereal creature that once guarded the border between realms but was cursed to roam aimlessly after being tricked into abandoning its post by a deceitful sorcerer.''
   \<and> getitem MONSTERS_FIRST_20 3 =
      Inr ''The Lamenting Willow: A tree-like creature born from the sorrows of lost travelers, it wanders the magical world seeking to guide others home, but its mournful wails often attract dangerous predators.''
   \<and> getitem MONSTERS_FIRST_20 4 =
      Inr ''The Lumivine, a bioluminescent vine creature, was once a guardian spirit of the forest corrupted by dark magic, now ensnaring lost travelers in its glowing tendrils.''
   \<and> getitem MONSTERS_FIRST_20 5 =
      Inr ''The Lumisprite is a glowing, moth-like creature that once served as guardians of the magical world's light sources, but were corrupted by dark magic, causing them to spread shadows instead.''
   \<and> getitem MONSTERS_FIRST_20 6 =
      Inr ''The Lumivine is a bioluminescent vine creature that once thrived on sunlight, but after a sorcerer's curse, it now feeds on the dreams of lost children to survive.''
   \<and> getitem MONSTERS_FIRST_20 7 =
      Inr ''The Lumivine is a bioluminescent vine creature that was once the guardian of the forest's light, cursed into a monstrous form for failing to protect its realm from darkness.''
   \<and> getitem MONSTERS_FIRST_20 8 =
      Inr ''The Lumivine: Once benevolent forest spirits, these creatures transformed into glowing, vine-covered beasts after a dark curse, now luring lost travelers deeper into the enchanted woods.''
   \<and> getitem MONSTERS_FIRST_20 9 =
      Inr ''The Lumivine Serpent is a glowing, vine-covered snake that was once a guardian spirit of the forest, but became twisted and hostile after a botched spell by a rogue wizard seeking to harness its power.''
   \<and> getitem MONSTERS_FIRST_20 10 =
      Inr ''The Luminescent Gloomling, once benevolent spirits of light, were cursed by a dark sorcerer and now wander the woods, seeking to absorb the light from any living being they encounter to regain their lost purity.''
   \<and> getitem MONSTERS_FIRST_20 11 =
      Inr ''The Lumivore is a bioluminescent, shadowy creature that was once a guardian of light, but turned into a monster after being corrupted by the darkness it vowed to protect against.''
   \<and> getitem MONSTERS_FIRST_20 12 =
      Inr ''The Lumigloom are shadowy creatures that were once the guiding spirits of the enchanted forest, but were corrupted by dark magic and now seek to trap lost souls in their eternal night.''
   \<and> getitem MONSTERS_FIRST_20 13 =
      Inr ''The Willow Wisp is a mischievous spirit born from the lost souls of children who wandered too far into the enchanted forest, guiding travelers deeper into the woods with its alluring glow in hopes of finding a way home themselves.''
   \<and> getitem MONSTERS_FIRST_20 14 =
      Inr ''The Lumivores are ethereal creatures that feed on light, created long ago by a sorcerer who sought to dim the world's radiance in a bid for eternal night.''
   \<and> getitem MONSTERS_FIRST_20 15 =
      Inr ''The Lumivine Serpent is a bioluminescent snake that once served as guardians of the forest's ancient secrets but became cursed to eternally search for their lost wisdom.''
   \<and> getitem MONSTERS_FIRST_20 16 =
      Inr ''The Lumibrume is a misty creature that guards the enchanted forests; it was once a wise sage who transformed to protect the realm from intruders after a tragic betrayal.''
   \<and> getitem MONSTERS_FIRST_20 17 =
      Inr ''The Lumisprite is a bioluminescent creature that guides lost souls through the forest; once benevolent protectors, they turned mischievous after a magical curse, leading travelers astray unless a riddle is solved.''
   \<and> getitem MONSTERS_FIRST_20 18 =
      Inr ''The Lumivine Serpent is a bioluminescent snake-like creature that once served as guardians of ancient forest temples, glowing in the dark to guide lost souls back to safety.''
   \<and> getitem MONSTERS_FIRST_20 19 =
      Inr ''The Lumigloom is a bioluminescent, shadowy creature born from lost wishes, casting eerie lights in the dark forest, seeking to guide or mislead travelers based on their intentions.''
   \<and> getitem PLACES_FIRST_20 0 =
      Inr ''The Whispering Glade is an ancient forest where trees communicate secrets of the world to those who listen, believed to be the resting place of an old druid who merged with nature centuries ago.''
   \<and> getitem PLACES_FIRST_20 1 =
      Inr ''The Crystal Caverns: Once the sacred home of an ancient order of seers, these luminescent caves now serve as a refuge for those seeking visions of the future, with every crystal reflecting echoes of forgotten prophecies.''
   \<and> getitem PLACES_FIRST_20 2 =
      Inr ''The Crystal Caverns: Once a sacred site for ancient druids, these luminescent caves now serve as a refuge for lost travelers, with crystals that heal those who seek their light.''
   \<and> getitem PLACES_FIRST_20 3 =
      Inr ''The Whispering Glade is an ancient forest where trees are said to hold the memories of the world, and travelers who listen closely can hear secrets of the past whispered by the rustling leaves.''
   \<and> getitem PLACES_FIRST_20 4 =
      Inr ''The Luminous Glade is a serene forest clearing where ancient druids once gathered to harness the moon's power, leaving behind a faint, perpetual glow that enhances magical abilities.''
   \<and> getitem PLACES_FIRST_20 5 =
      Inr ''The Glimmering Falls: A cascading waterfall infused with ancient magic, believed to be the birthplace of the realm's first wizards, where players can harness rare elemental powers.''
   \<and> getitem PLACES_FIRST_20 6 =
      Inr ''The Whispering Glade is an ancient forest where the trees are said to hold the memories of the world, and adventurers visit to seek guidance from the ethereal voices that echo through its leaves.''
   \<and> getitem PLACES_FIRST_20 7 =
      Inr ''The Luminous Grove is a radiant forest where ancient, bioluminescent trees illuminate paths to forgotten altars, once used by druids to commune with celestial beings.''
   \<and> getitem PLACES_FIRST_20 8 =
      Inr ''The Glimmering Caves of Eldoria: Once a hidden refuge for ancient wizards, these luminescent caverns now serve as a sacred site where adventurers seek wisdom and magical artifacts left behind.''
   \<and> getitem PLACES_FIRST_20 9 =
      Inr ''Whispering Glade: An ancient forest where ethereal spirits share secrets of lost magic, once a sacred meeting place for wizards of old.''
   \<and> getitem PLACES_FIRST_20 10 =
      Inr ''The Shimmering Glade is a mystical forest where ancient wizards once gathered to harness celestial magic, leaving behind enchanted runes that still pulse with arcane energy.''
   \<and> getitem PLACES_FIRST_20 11 =
      Inr ''The Whispering Glade: Once an ancient elven sanctuary, it is now a mystical forest where the trees softly murmur forgotten secrets and guide worthy adventurers to hidden treasures.''
   \<and> getitem PLACES_FIRST_20 12 =
      Inr ''The Whispering Glade: Once a sacred meeting ground for ancient druids, this mystical grove now echoes with the secrets of the forest, guiding adventurers who seek nature's wisdom.''
   \<and> getitem PLACES_FIRST_20 13 =
      Inr ''Mystic Glade: Once a sacred meeting place for ancient druids, this enchanted forest clearing now teems with magical flora and serves as a refuge for lost travelers seeking guidance.''
   \<and> getitem PLACES_FIRST_20 14 =
      Inr ''The Luminous Caverns: Once the sacred gathering place of the ancient Luminaris, these glowing, crystal-filled caves now serve as a sanctuary for adventurers seeking wisdom from the echoes of the past.''
   \<and> getitem PLACES_FIRST_20 15 =
      Inr ''The Shimmering Glade is an ancient grove where ethereal lights dance, said to be the resting place of the first Enchanter who harnessed the power of the stars to weave magic into the world.''
   \<and> getitem PLACES_FIRST_20 16 =
      Inr ''The Whispering Grove: Once a sacred meeting place for ancient druids who harnessed its mystical energies, it now serves as a haven for travelers seeking guidance from the enchanted trees that softly share secrets of the past.''
   \<and> getitem PLACES_FIRST_20 17 =
      Inr ''The Whispering Glade: A serene forest where ancient trees hum with the secrets of the land, said to be the resting place of a forgotten civilization's wisdom, guarded by ethereal spirits.''
   \<and> getitem PLACES_FIRST_20 18 =
      Inr ''The Whispering Glade is an enchanted forest where ancient spirits communicate through the rustling leaves, once serving as a sacred meeting ground for druids to seek wisdom and guidance.''
   \<and> getitem PLACES_FIRST_20 19 =
      Inr ''Emerald Glade: A serene forest clearing where ancient druids once convened to harness the land's magic, now serving as a sanctuary for weary travelers seeking rejuvenation.''"
  by (simp add: getitem_def MONSTERS_FIRST_20_def PLACES_FIRST_20_def)

text \<open>
  C6: nothing the module offers can fail: reading either constant from the module's
  namespace succeeds, and for every index \<open>i\<close> with \<open>0 \<le> i < 20\<close> subscripting either list
  at \<open>i\<close> returns a value and raises no error.
\<close>

theorem read_and_index_succeed:
  assumes "0 \<le> i" and "i < 20"
  shows "\<exists>xs ys s t.
           fst (read_global ''MONSTERS_FIRST_20'' module_globals) = Inr xs
         \<and> fst (read_global ''PLACES_FIRST_20'' module_globals) = Inr ys
         \<and> getitem xs i = Inr s \<and> getitem ys i = Inr t"
proof -
  have m: "fst (read_global ''MONSTERS_FIRST_20'' module_globals) = Inr MONSTERS_FIRST_20"
    by (simp add: read_global_def module_globals_def exec_module_def)
  have p: "fst (read_global ''PLACES_FIRST_20'' module_globals) = Inr PLACES_FIRST_20"
    by (simp add: read_global_def module_globals_def exec_module_def)
  have lm: "length MONSTERS_FIRST_20 = 20"
    by (simp add: MONSTERS_FIRST_20_def)
  have lp: "length PLACES_FIRST_20 = 20"
    by (simp add: PLACES_FIRST_20_def)
  have "getitem MONSTERS_FIRST_20 i = Inr (MONSTERS_FIRST_20 ! nat i)"
    using assms lm by (simp add: getitem_def)
  moreover have "getitem PLACES_FIRST_20 i = Inr (PLACES_FIRST_20 ! nat i)"
    using assms lp by (simp add: getitem_def)
  ultimately show ?thesis using m p by blast
qed

theorem read_and_index_succeed_witness:
  "(0::int) \<le> 19 \<and> (19::int) < 20
   \<and> (\<exists>xs ys s t.
           fst (read_global ''MONSTERS_FIRST_20'' module_globals) = Inr xs
         \<and> fst (read_global ''PLACES_FIRST_20'' module_globals) = Inr ys
         \<and> getitem xs 19 = Inr s \<and> getitem ys 19 = Inr t)"
  using read_and_index_succeed [of 19] by simp





text \<open>
  C8: every element of both lists is a paragraph of one to three sentences: it has at
  least one and at most three sentence-terminating stops.
\<close>

theorem one_to_three_sentences:
  "list_all (\<lambda>s. 1 \<le> count_stops s \<and> count_stops s \<le> 3) MONSTERS_FIRST_20
   \<and> list_all (\<lambda>s. 1 \<le> count_stops s \<and> count_stops s \<le> 3) PLACES_FIRST_20"
  by (simp add: MONSTERS_FIRST_20_def PLACES_FIRST_20_def count_stops_def sentence_stop_def)

text \<open>
  C9: within each list the 20 elements are pairwise distinct as exact strings.
\<close>

theorem elements_pairwise_distinct:
  "distinct MONSTERS_FIRST_20 \<and> distinct PLACES_FIRST_20"
  by (simp add: MONSTERS_FIRST_20_def PLACES_FIRST_20_def)

text \<open>
  C10: every element of \<^verbatim>\<open>MONSTERS_FIRST_20\<close> begins with the four characters "The ",
  whereas some element of \<^verbatim>\<open>PLACES_FIRST_20\<close> does not
  (Python's \<^verbatim>\<open>s.startswith("The ")\<close> is \<^const>\<open>prefix\<close>).
\<close>

theorem monsters_start_with_The_places_do_not:
  "list_all (prefix ''The '') MONSTERS_FIRST_20
   \<and> \<not> list_all (prefix ''The '') PLACES_FIRST_20
   \<and> (\<exists>i s. getitem PLACES_FIRST_20 i = Inr s \<and> \<not> prefix ''The '' s)"
proof -
  have "list_all (prefix ''The '') MONSTERS_FIRST_20"
    by (simp add: MONSTERS_FIRST_20_def)
  moreover have "\<not> list_all (prefix ''The '') PLACES_FIRST_20"
    by (simp add: PLACES_FIRST_20_def)
  moreover have "getitem PLACES_FIRST_20 9 = Inr (PLACES_FIRST_20 ! 9)"
    by (simp add: getitem_def PLACES_FIRST_20_def)
  moreover have "\<not> prefix ''The '' (PLACES_FIRST_20 ! 9)"
    by (simp add: PLACES_FIRST_20_def)
  ultimately show ?thesis by blast
qed

end
